theory Spec2Isabelle
  imports Complex_Main "HOL-Library.Word"
begin

section \<open>Conventions of the embedding\<close>

text \<open>
  The bond trading system is C++. Its stages are classes that hold a keyed container and a
  list of listeners; \<open>Service::Notify\<close> (soa.hpp) calls \<open>ProcessAdd\<close> of every listener
  with one value. In this development every stage operation is a function from the state
  of the stage to its new state together with the list of values it hands to \<open>Notify\<close>
  (or to a connector's \<open>Publish\<close>), in call order.

  The sources contain no \<open>throw\<close>. What can go wrong is undefined behaviour of the
  language: an \<open>end()\<close> iterator is dereferenced, a vector is indexed past its size, a
  character buffer is read past its terminator, a signed counter overflows. Each of these
  is a constructor of \<open>error\<close>, and a function that can reach one returns
  \<open>error + 'a\<close>; \<open>Inl\<close> therefore never stands for a condition that the program
  reports, only for an execution the language leaves undefined.

  A \<open>double\<close> is modelled by a rational number. The prices of the system are multiples
  of 1/256 close to 100 and the quantities are far below \<open>2^53\<close>, where the sums,
  differences and comparisons of the code are exact in binary floating point; constants
  such as \<open>0.9\<close>, \<open>0.02\<close> and \<open>1.0 / 127.0\<close> stand for the rationals they denote.
  A \<open>long\<close> that the code adds to or subtracts from is a 64-bit word with wrapping
  arithmetic (the LP64 targets); a \<open>long\<close> that is only copied is an \<open>int\<close>.
\<close>

datatype error = DerefEnd | IndexPastEnd | ReadPastTerminator | IntOverflow

definition bind_err :: "error + 'a \<Rightarrow> ('a \<Rightarrow> error + 'b) \<Rightarrow> error + 'b" where
  "bind_err r f = (case r of Inl e \<Rightarrow> Inl e | Inr v \<Rightarrow> f v)"

text \<open>\<open>static_cast<int>\<close> and \<open>static_cast<long>\<close> of a \<open>double\<close>: truncation towards zero.\<close>

definition static_cast_int :: "rat \<Rightarrow> int" where
  "static_cast_int x = (if 0 \<le> x then \<lfloor>x\<rfloor> else \<lceil>x\<rceil>)"

text \<open>The remainder of C++ integer division, which takes the sign of the dividend.\<close>

definition cpp_rem :: "int \<Rightarrow> int \<Rightarrow> int" where
  "cpp_rem a b = sgn a * (\<bar>a\<bar> mod \<bar>b\<bar>)"

text \<open>\<open>std::to_string\<close> of an \<open>int\<close>: decimal digits, with a minus sign when negative.\<close>

definition digit_char :: "nat \<Rightarrow> char" where
  "digit_char d = char_of (48 + d)"

fun to_string_nat :: "nat \<Rightarrow> string" where
  "to_string_nat n =
     (if n < 10 then [digit_char n] else to_string_nat (n div 10) @ [digit_char (n mod 10)])"

declare to_string_nat.simps [simp del]

definition to_string :: "int \<Rightarrow> string" where
  "to_string i = (if i < 0 then CHR ''-'' # to_string_nat (nat (- i)) else to_string_nat (nat i))"

text \<open>
  \<open>std::string::c_str\<close>: the characters of the string followed by one terminating zero
  character; reading further is undefined. A \<open>char\<close> in arithmetic is promoted to
  \<open>int\<close>, as a signed byte.
\<close>

definition c_str :: "string \<Rightarrow> nat \<Rightarrow> error + char" where
  "c_str s i =
     (if i < length s then Inr (s ! i)
      else if i = length s then Inr (CHR 0x00)
      else Inl ReadPastTerminator)"

definition char_value :: "char \<Rightarrow> int" where
  "char_value c = (let n = of_char c in if n < 128 then n else n - 256)"

section \<open>Price codec\<close>

text \<open>
  The encoder is the lambda \<open>decimalToFractional\<close> of data_generator.cpp
  (\<open>createPricesFile\<close> and \<open>createMarketDataFile\<close> hold the same text).
\<close>

definition decimalToFractional :: "rat \<Rightarrow> string" where
  "decimalToFractional price =
     (let whole = static_cast_int price;
          frac = price - of_int whole;
          thirtySeconds = static_cast_int (frac * 32);
          remainder = frac * 32 - of_int thirtySeconds;
          hasPlus = (remainder > 1 / 4);
          fracStr = (if thirtySeconds < 10 then ''0'' @ to_string thirtySeconds
                     else to_string thirtySeconds);
          fracStr = (if hasPlus then fracStr @ ''+'' else fracStr)
      in to_string whole @ ''-'' @ fracStr)"

text \<open>
  The decoder is \<open>FormatParser::ParsePriceFormat\<close> of utils.hpp. It looks at the first
  character only to choose between 99 and 100, and then reads three characters at a fixed
  offset: two as the thirty-seconds and one as 256ths.
\<close>

definition ParsePriceFormat :: "string \<Rightarrow> error + rat" where
  "ParsePriceFormat price_string =
     bind_err (c_str price_string 0) (\<lambda>c0.
       let (mainPart, offset) = (if c0 = CHR ''9'' then (99 :: int, 3 :: nat) else (100, 4))
       in bind_err (c_str price_string offset) (\<lambda>d0.
          bind_err (c_str price_string (offset + 1)) (\<lambda>d1.
          bind_err (c_str price_string (offset + 2)) (\<lambda>d2.
            let first = (char_value d0 - char_value CHR ''0'') * 10
                          + (char_value d1 - char_value CHR ''0'');
                second = char_value d2 - char_value CHR ''0'';
                fractional = of_int first / 32 + of_int second / 256
            in Inr (of_int mainPart + fractional)))))"

section \<open>Products, trades and positions\<close>

text \<open>
  \<open>Bond\<close>, \<open>Trade\<close> and the enumeration \<open>Side\<close> are declared in products.hpp and
  tradebookingservice.hpp, which are not among the sources; the records below hold the
  fields that the sources read (\<open>GetProductId\<close>, \<open>GetTicker\<close>, \<open>GetBook\<close>,
  \<open>GetQuantity\<close>, \<open>GetSide\<close>) and the constructor calls of utils.hpp and
  connectors.hpp supply. A maturity date is kept as year, month, day.
\<close>

record Bond =
  productId :: string
  ticker :: string
  coupon :: rat
  maturity :: "nat \<times> nat \<times> nat"

datatype Side = BUY | SELL

record Trade =
  trade_product :: Bond
  tradeId :: string
  trade_price :: rat
  book :: string
  trade_quantity :: "64 word"
  trade_side :: Side

text \<open>
  \<open>std::map::insert\<close> and \<open>std::unordered_map::insert\<close> keep an entry that is
  already there.
\<close>

definition map_insert :: "('k \<rightharpoonup> 'v) \<Rightarrow> 'k \<Rightarrow> 'v \<Rightarrow> ('k \<rightharpoonup> 'v)" where
  "map_insert m k v = (case m k of None \<Rightarrow> m(k \<mapsto> v) | Some _ \<Rightarrow> m)"

text \<open>\<open>ProductMap\<close> of utils.hpp: the static catalog of seven bonds.\<close>

definition GetProducts :: "Bond list" where
  "GetProducts =
     [\<lparr>productId = ''B02y'', ticker = ''B02y'', coupon = 2 / 100, maturity = (2026, 12, 31)\<rparr>,
      \<lparr>productId = ''B03y'', ticker = ''B03y'', coupon = 25 / 1000, maturity = (2027, 12, 31)\<rparr>,
      \<lparr>productId = ''B05y'', ticker = ''B05y'', coupon = 3 / 100, maturity = (2029, 12, 31)\<rparr>,
      \<lparr>productId = ''B07y'', ticker = ''B07y'', coupon = 35 / 1000, maturity = (2031, 12, 31)\<rparr>,
      \<lparr>productId = ''B10y'', ticker = ''B10y'', coupon = 4 / 100, maturity = (2034, 12, 31)\<rparr>,
      \<lparr>productId = ''B20y'', ticker = ''B20y'', coupon = 45 / 1000, maturity = (2044, 12, 31)\<rparr>,
      \<lparr>productId = ''B30y'', ticker = ''B30y'', coupon = 5 / 100, maturity = (2054, 12, 31)\<rparr>]"

definition GetProductMap :: "string \<rightharpoonup> Bond" where
  "GetProductMap = fold (\<lambda>b result. map_insert result (productId b) b) GetProducts Map.empty"

definition GetTickers :: "string list" where
  "GetTickers = [''B02y'', ''B03y'', ''B05y'', ''B07y'', ''B10y'', ''B20y'', ''B30y'']"

text \<open>
  \<open>Position\<close> of positionservice.hpp: the product and a \<open>map<string,long>\<close> from book to
  quantity. \<open>find(book)->second\<close> is a dereference of \<open>end()\<close> when the book is not a
  key.
\<close>

record Position =
  pos_product :: Bond
  positions :: "string \<rightharpoonup> 64 word"

text \<open>The array \<open>books_\<close> of the constructor and of \<open>GetAggregatePosition\<close>.\<close>

definition books :: "string list" where
  "books = [''TRSY1'', ''TRSY2'', ''TRSY3'']"

definition Position_ctor :: "Bond \<Rightarrow> Position" where
  "Position_ctor product =
     \<lparr>pos_product = product,
      positions = fold (\<lambda>b m. map_insert m b 0) books Map.empty\<rparr>"

text \<open>
  \<open>GetPosition\<close> prints a message when the book is missing and then dereferences the
  iterator all the same.
\<close>

definition GetPosition :: "Position \<Rightarrow> string \<Rightarrow> error + 64 word" where
  "GetPosition p b = (case positions p b of None \<Rightarrow> Inl DerefEnd | Some v \<Rightarrow> Inr v)"

fun aggregate_loop :: "(string \<rightharpoonup> 64 word) \<Rightarrow> string list \<Rightarrow> 64 word \<Rightarrow> error + 64 word" where
  "aggregate_loop m [] result = Inr result"
| "aggregate_loop m (b # bs) result =
     (case m b of None \<Rightarrow> Inl DerefEnd | Some v \<Rightarrow> aggregate_loop m bs (result + v))"

definition GetAggregatePosition :: "Position \<Rightarrow> error + 64 word" where
  "GetAggregatePosition p = aggregate_loop (positions p) books 0"

definition UpdatePosition :: "Position \<Rightarrow> string \<Rightarrow> 64 word \<Rightarrow> Side \<Rightarrow> error + Position" where
  "UpdatePosition p b quantity side =
     (case positions p b of
        None \<Rightarrow> Inl DerefEnd
      | Some v \<Rightarrow>
          if side = BUY then Inr (p\<lparr>positions := (positions p)(b \<mapsto> v + quantity)\<rparr>)
          else Inr (p\<lparr>positions := (positions p)(b \<mapsto> v - quantity)\<rparr>))"

text \<open>
  \<open>PositionService\<close>: the map \<open>name_p\<close> from ticker to position, filled by the
  constructor for the tickers of the catalog.
\<close>

record PositionService =
  name_p :: "string \<rightharpoonup> Position"

fun PositionService_ctor_loop ::
  "(string \<rightharpoonup> Bond) \<Rightarrow> string list \<Rightarrow> (string \<rightharpoonup> Position) \<Rightarrow> error + (string \<rightharpoonup> Position)" where
  "PositionService_ctor_loop bond_map [] m = Inr m"
| "PositionService_ctor_loop bond_map (ele # tickers) m =
     (case bond_map ele of
        None \<Rightarrow> Inl DerefEnd
      | Some b \<Rightarrow> PositionService_ctor_loop bond_map tickers (map_insert m ele (Position_ctor b)))"

definition PositionService_ctor :: "error + PositionService" where
  "PositionService_ctor =
     bind_err (PositionService_ctor_loop GetProductMap GetTickers Map.empty)
       (\<lambda>m. Inr \<lparr>name_p = m\<rparr>)"

text \<open>
  \<open>PositionService::AddTrade\<close>. The update is guarded by the test that the ticker is a
  key of \<open>name_p\<close>; the other branch prints \<open>key = ... doesn't exist!\<close>. The call of
  \<open>Notify\<close> follows the conditional and looks the ticker up again without a test. The
  result is the new state of the service and the positions passed to \<open>Notify\<close>.
\<close>

definition AddTrade :: "PositionService \<Rightarrow> Trade \<Rightarrow> error + (PositionService \<times> Position list)" where
  "AddTrade svc trade =
     (let ticker = ticker (trade_product trade);
          book = book trade;
          quantity = trade_quantity trade;
          side = trade_side trade
      in bind_err
           (case name_p svc ticker of
              Some pos \<Rightarrow>
                bind_err (UpdatePosition pos book quantity side)
                  (\<lambda>pos'. Inr (svc\<lparr>name_p := (name_p svc)(ticker \<mapsto> pos')\<rparr>))
            | None \<Rightarrow> Inr svc)
           (\<lambda>svc'. case name_p svc' ticker of
                      None \<Rightarrow> Inl DerefEnd
                    | Some p \<Rightarrow> Inr (svc', [p])))"

definition PositionService_GetData :: "PositionService \<Rightarrow> string \<Rightarrow> error + Position" where
  "PositionService_GetData svc key =
     (case name_p svc key of None \<Rightarrow> Inl DerefEnd | Some p \<Rightarrow> Inr p)"

text \<open>A run of trades through one position, each applied by \<open>UpdatePosition\<close>.\<close>

fun apply_trades :: "Position \<Rightarrow> Trade list \<Rightarrow> error + Position" where
  "apply_trades p [] = Inr p"
| "apply_trades p (t # ts) =
     bind_err (UpdatePosition p (book t) (trade_quantity t) (trade_side t))
       (\<lambda>p'. apply_trades p' ts)"

definition signed_quantity :: "Trade \<Rightarrow> 64 word" where
  "signed_quantity t = (if trade_side t = BUY then trade_quantity t else - trade_quantity t)"

section \<open>Risk\<close>

text \<open>
  \<open>PV01\<close> and \<open>RiskService\<close> of riskservice.hpp. \<open>AddPosition\<close> builds a \<open>PV01\<close>
  with the literal 0.02 and passes it to \<open>Notify\<close>; it never writes the map \<open>data\<close>,
  and nothing else does.
\<close>

record PV01 =
  pv_product :: Bond
  pv01 :: rat
  pv_quantity :: "64 word"

record RiskService =
  data :: "string \<rightharpoonup> PV01"

definition RiskService_ctor :: RiskService where
  "RiskService_ctor = \<lparr>data = Map.empty\<rparr>"

definition AddPosition :: "RiskService \<Rightarrow> Position \<Rightarrow> error + (RiskService \<times> PV01 list)" where
  "AddPosition svc position =
     bind_err (GetAggregatePosition position)
       (\<lambda>aggregate.
          let curr_pv01 = \<lparr>pv_product = pos_product position, pv01 = 2 / 100,
                           pv_quantity = aggregate\<rparr>
          in Inr (svc, [curr_pv01]))"

definition RiskService_GetData :: "RiskService \<Rightarrow> string \<Rightarrow> error + PV01" where
  "RiskService_GetData svc key =
     (case data svc key of None \<Rightarrow> Inl DerefEnd | Some v \<Rightarrow> Inr v)"

text \<open>
  \<open>RiskConnector::Publish\<close> of connectors.hpp appends one record to the risk file: the
  clock reading, the ticker and the total risk \<open>GetPV01() * GetQuantity()\<close>.
\<close>

definition totalRisk :: "PV01 \<Rightarrow> rat" where
  "totalRisk d = pv01 d * of_int (sint (pv_quantity d))"

definition RiskConnector_Publish :: "int \<Rightarrow> PV01 \<Rightarrow> int \<times> string \<times> rat" where
  "RiskConnector_Publish now_ms d = (now_ms, ticker (pv_product d), totalRisk d)"

section \<open>Market data and the execution stage\<close>

text \<open>
  \<open>Order\<close>, \<open>OrderBook\<close> and \<open>PricingSide\<close> are declared in marketdataservice.hpp,
  \<open>ExecutionOrder\<close>, \<open>OrderType\<close> and \<open>Market\<close> in executionservice.hpp; neither
  file is among the sources. The records hold the constructor arguments as services.hpp
  and connectors.hpp pass them, and the enumerations the enumerators that these files
  name. An order book is generic in its product type.
\<close>

datatype PricingSide = BID | OFFER

datatype OrderType = MARKET

datatype Market = CME

record Order =
  order_price :: rat
  order_quantity :: int
  order_side :: PricingSide

record 'p OrderBook =
  ob_product :: 'p
  bidStack :: "Order list"
  offerStack :: "Order list"

record 'p ExecutionOrder =
  eo_product :: 'p
  eo_side :: PricingSide
  orderId :: string
  orderType :: OrderType
  eo_price :: rat
  visibleQuantity :: int
  hiddenQuantity :: int
  parentOrderId :: string
  isChildOrder :: bool

record 'p AlgoExecution =
  order :: "'p ExecutionOrder"
  market :: Market

text \<open>\<open>operator[]\<close> of a vector: undefined past the size.\<close>

definition vector_at :: "'a list \<Rightarrow> nat \<Rightarrow> error + 'a" where
  "vector_at v i = (if i < length v then Inr (v ! i) else Inl IndexPastEnd)"

text \<open>
  The conversion \<open>PricingSide(counter % 2)\<close> depends on the order in which the
  enumeration declares its values. The definitions take the conversion as the parameter
  \<open>cast\<close>, and the theorems hold for every conversion. \<open>BID_first\<close> is the conversion
  for a declaration that lists \<open>BID\<close> before \<open>OFFER\<close>; it serves to evaluate the
  definitions at concrete inputs.
\<close>

definition BID_first :: "int \<Rightarrow> PricingSide" where
  "BID_first n = (if n = 0 then BID else OFFER)"

text \<open>
  The constructor of \<open>AlgoExecution\<close> (services.hpp). \<open>counter\<close> is a static member:
  one \<open>int\<close> for the whole program, passed in and returned here. Incrementing it at
  \<open>INT_MAX\<close> is a signed overflow.
\<close>

definition AlgoExecution_ctor ::
  "(int \<Rightarrow> PricingSide) \<Rightarrow> int \<Rightarrow> 'p OrderBook \<Rightarrow> error + (int \<times> 'p AlgoExecution)" where
  "AlgoExecution_ctor cast counter d =
     (if counter = 2147483647 then Inl IntOverflow
      else
        let counter = counter + 1;
            side = cast (cpp_rem counter 2);
            orderID = to_string counter;
            product = ob_product d;
            hidden_ratio = 9 / 10
        in bind_err
             (if side = BID then
                bind_err (vector_at (bidStack d) 0) (\<lambda>b.
                bind_err (vector_at (offerStack d) 0) (\<lambda>a.
                  Inr (order_price b, order_quantity a)))
              else
                bind_err (vector_at (offerStack d) 0) (\<lambda>a.
                bind_err (vector_at (bidStack d) 0) (\<lambda>b.
                  Inr (order_price a, order_quantity b))))
             (\<lambda>(price, quantity).
                Inr (counter,
                     \<lparr>order =
                        \<lparr>eo_product = product, eo_side = side, orderId = orderID,
                         orderType = MARKET, eo_price = price, visibleQuantity = quantity,
                         hiddenQuantity = static_cast_int (of_int quantity * hidden_ratio),
                         parentOrderId = orderID, isChildOrder = False\<rparr>,
                      market = CME\<rparr>)))"

text \<open>
  \<open>BondAlgoExecutionService::Execute\<close>. The service has no members of its own besides
  its listeners, so its state is the static counter. The result lists the
  \<open>AlgoExecution\<close> values passed to \<open>Notify\<close>: one or none.
\<close>

definition Execute ::
  "(int \<Rightarrow> PricingSide) \<Rightarrow> int \<Rightarrow> 'p OrderBook \<Rightarrow> error + (int \<times> 'p AlgoExecution list)" where
  "Execute cast counter d =
     bind_err (vector_at (bidStack d) 0) (\<lambda>b.
     bind_err (vector_at (offerStack d) 0) (\<lambda>a.
       let best_bid = order_price b;
           best_offer = order_price a;
           spread = best_offer - best_bid;
           tol = 1 / 127
       in if spread \<le> tol then
            bind_err (AlgoExecution_ctor cast counter d)
              (\<lambda>(counter', algo_execution). Inr (counter', [algo_execution]))
          else Inr (counter, [])))"

text \<open>
  Successive order books, as \<open>BondAlgoExecutionListener::ProcessAdd\<close> hands them to
  \<open>Execute\<close> one after the other, whatever their products.
\<close>

fun Execute_all ::
  "(int \<Rightarrow> PricingSide) \<Rightarrow> int \<Rightarrow> 'p OrderBook list \<Rightarrow> error + (int \<times> 'p AlgoExecution list)" where
  "Execute_all cast counter [] = Inr (counter, [])"
| "Execute_all cast counter (d # ds) =
     bind_err (Execute cast counter d) (\<lambda>(c1, out1).
     bind_err (Execute_all cast c1 ds) (\<lambda>(c2, out2). Inr (c2, out1 @ out2)))"

text \<open>The test of \<open>Execute\<close> on the best levels of a book, for use in statements.\<close>

definition qualifies :: "'p OrderBook \<Rightarrow> bool" where
  "qualifies d = (order_price (hd (offerStack d)) - order_price (hd (bidStack d)) \<le> 1 / 127)"

section \<open>Rate-limited delivery of quotes\<close>

text \<open>
  \<open>GUIService\<close> of services.hpp reads the system clock in milliseconds, in the constructor
  and in every \<open>ProvideData\<close>. The reading is an argument here. The result of
  \<open>ProvideData\<close> lists the quotes passed to \<open>gui_connector->Publish\<close>.
\<close>

record GUIService =
  service_start_time :: int
  last_quote_time :: int

definition GUIService_ctor :: "int \<Rightarrow> GUIService" where
  "GUIService_ctor now = \<lparr>service_start_time = now, last_quote_time = now\<rparr>"

definition ProvideData :: "GUIService \<Rightarrow> int \<Rightarrow> 'q \<Rightarrow> GUIService \<times> 'q list" where
  "ProvideData svc current_epic d =
     (if current_epic - last_quote_time svc > 300
      then (svc\<lparr>last_quote_time := current_epic\<rparr>, [d])
      else (svc, []))"

text \<open>Successive quotes, each with the clock reading of its \<open>ProvideData\<close>.\<close>

fun ProvideData_all :: "GUIService \<Rightarrow> (int \<times> 'q) list \<Rightarrow> GUIService \<times> 'q list" where
  "ProvideData_all svc [] = (svc, [])"
| "ProvideData_all svc ((t, d) # rest) =
     (let (svc1, out1) = ProvideData svc t d;
          (svc2, out2) = ProvideData_all svc1 rest
      in (svc2, out1 @ out2))"

section \<open>Inquiries\<close>

text \<open>
  \<open>Inquiry\<close> and \<open>InquiryState\<close> are declared in inquiryservice.hpp, which is not among
  the sources. The record holds the constructor arguments of
  \<open>InquiryConnector::Subscribe\<close>; the states are those that
  \<open>AllInquiriesConnector::Publish\<close> names.
\<close>

datatype InquiryState = RECEIVED | QUOTED | DONE | REJECTED

record 'p Inquiry =
  inquiryId :: string
  inq_product :: 'p
  inq_side :: Side
  inq_quantity :: int
  inq_price :: rat
  state :: InquiryState

record 'p InquiryService =
  inquiries :: "string \<rightharpoonup> 'p Inquiry"

text \<open>
  Modelled from the spec: \<open>InquiryService::OnMessage\<close> is defined in inquiryservice.hpp,
  which is not among the sources. The specification says of it: the stage itself simply
  records the latest state per inquiry identifier and notifies listeners on every
  transition.
\<close>

definition InquiryService_OnMessage ::
  "'p InquiryService \<Rightarrow> 'p Inquiry \<Rightarrow> 'p InquiryService \<times> 'p Inquiry list" where
  "InquiryService_OnMessage svc d = (svc\<lparr>inquiries := (inquiries svc)(inquiryId d \<mapsto> d)\<rparr>, [d])"

text \<open>
  \<open>InquiryConnector::Publish\<close> of connectors.hpp, with the \<open>OnMessage\<close> of the service
  it points to as a parameter. The result is the state of the service after the calls and
  what the calls produced, in order. \<open>OnMessage\<close> takes the inquiry by reference; the
  service modelled above leaves it as it is.
\<close>

definition InquiryConnector_Publish ::
  "('s \<Rightarrow> 'p Inquiry \<Rightarrow> 's \<times> 'e list) \<Rightarrow> 's \<Rightarrow> 'p Inquiry \<Rightarrow> 's \<times> 'e list" where
  "InquiryConnector_Publish OnMessage svc d =
     (if state d = RECEIVED then
        let q = d;
            q = q\<lparr>state := QUOTED\<rparr>;
            (svc1, out1) = OnMessage svc q;
            q = q\<lparr>state := DONE\<rparr>;
            (svc2, out2) = OnMessage svc1 q
        in (svc2, out1 @ out2)
      else (svc, []))"

section \<open>Theorems\<close>

subsection \<open>Price codec\<close>

lemma decimalToFractional_plus: "decimalToFractional (6369 / 64) = ''99-16+''"
  by code_simp

lemma decimalToFractional_plain: "decimalToFractional (199 / 2) = ''99-16''"
  by code_simp

text \<open>
  C1 (round trip of the price codec). The claim asks that decoding the encoded text of a
  price in 1/64 steps gives the price back. At 99 + 33/64 = 99.515625 the encoder writes
  \<open>99-16+\<close>; the decoder reads the \<open>+\<close> as the digit of the 256ths, that is as
  \<open>'+' - '0' = -5\<close>, and returns 99 + 16/32 - 5/256, which is not the price. At 99.5 the
  encoder writes \<open>99-16\<close> and the decoder reads the terminating zero character as that
  digit, giving 99 + 16/32 - 48/256.
\<close>

theorem price_codec_round_trip_fails:
  "ParsePriceFormat (decimalToFractional (6369 / 64)) = Inr (25467 / 256)
   \<and> ParsePriceFormat (decimalToFractional (6369 / 64)) \<noteq> Inr (6369 / 64)
   \<and> ParsePriceFormat (decimalToFractional (199 / 2)) = Inr (1589 / 16)
   \<and> ParsePriceFormat (decimalToFractional (199 / 2)) \<noteq> Inr (199 / 2)"
proof -
  have a: "ParsePriceFormat ''99-16+'' = Inr (25467 / 256)"
    by code_simp
  have b: "ParsePriceFormat ''99-16'' = Inr (1589 / 16)"
    by code_simp
  show ?thesis
    by (simp add: decimalToFractional_plus decimalToFractional_plain a b)
qed

text \<open>
  The same happens at every price of the range. For a whole part of 99 or 100 and \<open>k\<close>
  sixty-fourths, the encoder writes the whole part, a dash, the two digits of
  \<open>k div 2\<close> and a \<open>+\<close> when \<open>k\<close> is odd; the decoder returns the whole part plus
  \<open>k div 2\<close> thirty-seconds, less 5/256 when there is a \<open>+\<close> and less 48/256 when
  there is none. The result is never the price that was encoded.
\<close>

lemma digit_char_0: "digit_char 0 = CHR ''0''"
  by code_simp

lemma char_value_digit_char:
  assumes "d < 10"
  shows "char_value (digit_char d) = 48 + int d"
proof -
  have "(of_char (digit_char d) :: nat) = (48 + d) mod 256"
    by (simp add: digit_char_def)
  with assms have "(of_char (digit_char d) :: nat) = 48 + d"
    by simp
  then have "int (of_char (digit_char d)) = 48 + int d"
    by simp
  then have "(of_char (digit_char d) :: int) = 48 + int d"
    by (simp add: of_nat_of_char)
  with assms show ?thesis
    by (simp add: char_value_def Let_def)
qed

lemma char_value_consts:
  "char_value CHR ''0'' = 48" "char_value CHR ''+'' = 43" "char_value (CHR 0x00) = 0"
  by (simp_all add: char_value_def)

lemma two_digits:
  assumes "n < 100"
  shows "(if int n < 10 then ''0'' @ to_string (int n) else to_string (int n))
           = [digit_char (n div 10), digit_char (n mod 10)]"
proof (cases "n < 10")
  case True
  then show ?thesis
    by (simp add: to_string_def to_string_nat.simps [of n] digit_char_0)
next
  case False
  with assms have "n div 10 < 10" by simp
  with False show ?thesis
    by (simp add: to_string_def to_string_nat.simps [of n] to_string_nat.simps [of "n div 10"])
qed

lemma to_string_99: "to_string 99 = ''99''"
  by code_simp

lemma to_string_100: "to_string 100 = ''100''"
  by code_simp

lemma half_parts:
  fixes k :: nat
  shows "(of_nat k :: rat) / 2 = of_nat (k div 2) + (if odd k then 1 / 2 else 0)"
proof -
  have "k = 2 * (k div 2) + k mod 2" by simp
  then have "(of_nat k :: rat) = 2 * of_nat (k div 2) + of_nat (k mod 2)"
    by (metis of_nat_add of_nat_mult of_nat_numeral)
  then show ?thesis
    by (auto simp add: field_simps odd_iff_mod_2_eq_one)
qed

lemma encode_value:
  assumes "k < 64" and "0 \<le> whole"
  shows "decimalToFractional (of_int whole + of_nat k / 64) =
           to_string whole @ ''-'' @ [digit_char (k div 2 div 10), digit_char (k div 2 mod 10)]
             @ (if odd k then ''+'' else [])"
proof -
  let ?x = "of_int whole + of_nat k / 64 :: rat"
  have fl: "\<lfloor>(of_nat k :: rat) / 64\<rfloor> = 0"
    using assms(1) by (simp add: floor_eq_iff)
  have nn: "0 \<le> ?x" using assms(2) by simp
  have w: "static_cast_int ?x = whole"
    using nn fl by (simp add: static_cast_int_def)
  have f32: "(?x - of_int whole) * 32 = of_nat k / 2"
    by simp
  have t: "static_cast_int ((of_nat k :: rat) / 2) = int (k div 2)"
    by (simp add: static_cast_int_def half_parts floor_eq_iff)
  have r: "((of_nat k :: rat) / 2 - of_int (int (k div 2)) > 1 / 4) = odd k"
    by (simp add: half_parts)
  have n: "k div 2 < 100" using assms(1) by simp
  show ?thesis
    unfolding decimalToFractional_def Let_def w f32 t r two_digits [OF n]
    by simp
qed

lemma decode_99:
  "ParsePriceFormat (''99-'' @ [d0, d1] @ rest) =
     Inr (99 + of_int ((char_value d0 - 48) * 10 + (char_value d1 - 48)) / 32
            + of_int (char_value (case rest of [] \<Rightarrow> CHR 0x00 | c # _ \<Rightarrow> c) - 48) / 256)"
  by (cases rest) (simp_all add: ParsePriceFormat_def c_str_def bind_err_def char_value_consts)

lemma decode_100:
  "ParsePriceFormat (''100-'' @ [d0, d1] @ rest) =
     Inr (100 + of_int ((char_value d0 - 48) * 10 + (char_value d1 - 48)) / 32
            + of_int (char_value (case rest of [] \<Rightarrow> CHR 0x00 | c # _ \<Rightarrow> c) - 48) / 256)"
  by (cases rest) (simp_all add: ParsePriceFormat_def c_str_def bind_err_def char_value_consts)

lemma round_trip_value:
  assumes "whole = 99 \<or> whole = 100" and "k < 64"
  shows "ParsePriceFormat (decimalToFractional (of_int whole + of_nat k / 64)) =
           Inr (of_int whole + of_nat (k div 2) / 32 - (if odd k then 5 else 48) / 256)"
proof -
  let ?d0 = "digit_char (k div 2 div 10)" and ?d1 = "digit_char (k div 2 mod 10)"
  let ?rest = "if odd k then ''+'' else []"
  have d: "k div 2 div 10 < 10" "k div 2 mod 10 < 10"
    using assms(2) by simp_all
  have "k div 2 div 10 * 10 + k div 2 mod 10 = k div 2"
    by (rule div_mult_mod_eq)
  then have "int (k div 2 div 10 * 10 + k div 2 mod 10) = int (k div 2)"
    by (rule arg_cong)
  then have n: "int (k div 2 div 10) * 10 + int (k div 2 mod 10) = int (k div 2)"
    by (simp only: of_nat_add of_nat_mult of_nat_numeral)
  have first: "(char_value ?d0 - 48) * 10 + (char_value ?d1 - 48) = int (k div 2)"
    using n by (simp add: char_value_digit_char [OF d(1)] char_value_digit_char [OF d(2)])
  have third: "char_value (case ?rest of [] \<Rightarrow> CHR 0x00 | c # _ \<Rightarrow> c) - 48
                 = (if odd k then - 5 else - 48)"
    by (simp add: char_value_consts)
  from assms(1) show ?thesis
  proof
    assume w: "whole = 99"
    have "decimalToFractional (of_int whole + of_nat k / 64) = ''99-'' @ [?d0, ?d1] @ ?rest"
      using encode_value [OF assms(2), of whole] by (simp add: w to_string_99)
    then have "ParsePriceFormat (decimalToFractional (of_int whole + of_nat k / 64))
                 = ParsePriceFormat (''99-'' @ [?d0, ?d1] @ ?rest)"
      by (rule arg_cong)
    also have "\<dots> = Inr (99 + of_int (int (k div 2)) / 32
                          + of_int (if odd k then - 5 else - 48) / 256)"
      unfolding decode_99 first third ..
    finally show ?thesis
      by (simp add: w)
  next
    assume w: "whole = 100"
    have "decimalToFractional (of_int whole + of_nat k / 64) = ''100-'' @ [?d0, ?d1] @ ?rest"
      using encode_value [OF assms(2), of whole] by (simp add: w to_string_100)
    then have "ParsePriceFormat (decimalToFractional (of_int whole + of_nat k / 64))
                 = ParsePriceFormat (''100-'' @ [?d0, ?d1] @ ?rest)"
      by (rule arg_cong)
    also have "\<dots> = Inr (100 + of_int (int (k div 2)) / 32
                          + of_int (if odd k then - 5 else - 48) / 256)"
      unfolding decode_100 first third ..
    finally show ?thesis
      by (simp add: w)
  qed
qed

lemma round_trip_never:
  assumes "whole = 99 \<or> whole = 100" and "k < 64"
  shows "ParsePriceFormat (decimalToFractional (of_int whole + of_nat k / 64))
           \<noteq> Inr (of_int whole + of_nat k / 64)"
proof -
  have "(of_nat k :: rat) / 64 = of_nat (k div 2) / 32 + (if odd k then 1 / 64 else 0)"
    using half_parts [of k] by (simp add: field_simps split: if_splits)
  then show ?thesis
    unfolding round_trip_value [OF assms] by (simp split: if_splits)
qed

subsection \<open>Positions\<close>

lemma GetAggregatePosition_unfold:
  "GetAggregatePosition p =
     (case positions p ''TRSY1'' of None \<Rightarrow> Inl DerefEnd | Some v1 \<Rightarrow>
      (case positions p ''TRSY2'' of None \<Rightarrow> Inl DerefEnd | Some v2 \<Rightarrow>
       (case positions p ''TRSY3'' of None \<Rightarrow> Inl DerefEnd | Some v3 \<Rightarrow> Inr (v1 + v2 + v3))))"
  by (simp add: GetAggregatePosition_def books_def split: option.splits)

lemma Position_ctor_positions:
  "positions (Position_ctor b) = [''TRSY1'' \<mapsto> 0, ''TRSY2'' \<mapsto> 0, ''TRSY3'' \<mapsto> 0]"
  by (simp add: Position_ctor_def books_def map_insert_def)

lemma dom_Position_ctor: "dom (positions (Position_ctor b)) = set books"
  by (auto simp add: Position_ctor_positions books_def)

lemma UpdatePosition_known:
  assumes "positions p b = Some v"
  shows "UpdatePosition p b q s =
           Inr (p\<lparr>positions := (positions p)(b \<mapsto> (if s = BUY then v + q else v - q))\<rparr>)"
  using assms by (simp add: UpdatePosition_def)

lemma UpdatePosition_unknown:
  assumes "positions p b = None"
  shows "UpdatePosition p b q s = Inl DerefEnd"
  using assms by (simp add: UpdatePosition_def)

lemma apply_trades_positions:
  assumes "\<forall>t \<in> set ts. book t \<in> dom (positions p)"
  shows "\<exists>p'. apply_trades p ts = Inr p'
            \<and> pos_product p' = pos_product p
            \<and> dom (positions p') = dom (positions p)
            \<and> (\<forall>b v. positions p b = Some v \<longrightarrow>
                  positions p' b =
                    Some (v + sum_list (map signed_quantity (filter (\<lambda>t. book t = b) ts))))"
  using assms
proof (induction ts arbitrary: p)
  case Nil
  then show ?case by simp
next
  case (Cons t ts)
  from Cons.prems obtain v where v: "positions p (book t) = Some v"
    by auto
  define p1 where
    "p1 = p\<lparr>positions := (positions p)(book t \<mapsto>
             (if trade_side t = BUY then v + trade_quantity t else v - trade_quantity t))\<rparr>"
  have step: "UpdatePosition p (book t) (trade_quantity t) (trade_side t) = Inr p1"
    unfolding p1_def by (rule UpdatePosition_known [OF v])
  have dom1: "dom (positions p1) = dom (positions p)"
    using v by (auto simp add: p1_def)
  have "\<forall>t' \<in> set ts. book t' \<in> dom (positions p1)"
    using Cons.prems dom1 by simp
  from Cons.IH [OF this] obtain p' where
    run: "apply_trades p1 ts = Inr p'" and
    prod: "pos_product p' = pos_product p1" and
    dom': "dom (positions p') = dom (positions p1)" and
    vals: "\<And>b w. positions p1 b = Some w \<Longrightarrow>
             positions p' b = Some (w + sum_list (map signed_quantity (filter (\<lambda>t. book t = b) ts)))"
    by blast
  have "apply_trades p (t # ts) = Inr p'"
    by (simp add: step run bind_err_def)
  moreover have "pos_product p' = pos_product p"
    by (simp add: prod p1_def)
  moreover have "dom (positions p') = dom (positions p)"
    by (simp add: dom' dom1)
  moreover have "positions p' b =
       Some (w + sum_list (map signed_quantity (filter (\<lambda>t. book t = b) (t # ts))))"
    if w: "positions p b = Some w" for b w
  proof (cases "book t = b")
    case True
    with v w have "w = v" by simp
    then have "positions p1 b = Some (v + signed_quantity t)"
      using True by (simp add: p1_def signed_quantity_def)
    from vals [OF this] show ?thesis
      using True \<open>w = v\<close> by (simp add: add.assoc)
  next
    case False
    then have "positions p1 b = Some w"
      using w by (simp add: p1_def)
    from vals [OF this] show ?thesis
      using False by simp
  qed
  ultimately show ?case by blast
qed

lemma sum_by_book:
  assumes "\<forall>t \<in> set ts. book t \<in> set books"
  shows "sum_list (map f (filter (\<lambda>t. book t = ''TRSY1'') ts))
         + sum_list (map f (filter (\<lambda>t. book t = ''TRSY2'') ts))
         + sum_list (map f (filter (\<lambda>t. book t = ''TRSY3'') ts))
         = (sum_list (map f ts) :: 64 word)"
  using assms by (induction ts) (auto simp add: books_def ac_simps)

text \<open>
  Runs within the three books. Starting from the position that the constructor builds, a
  run of trades whose books are among the three of the constructor goes through, the
  aggregate position is the sum of the signed quantities (in 64-bit arithmetic), every
  book holds the sum of the signed quantities of the trades against it, and the set of
  book keys is still the set of the constructor.
\<close>

theorem position_invariant:
  assumes "\<forall>t \<in> set ts. book t \<in> set books"
  shows "\<exists>p. apply_trades (Position_ctor product) ts = Inr p
            \<and> GetAggregatePosition p = Inr (sum_list (map signed_quantity ts))
            \<and> dom (positions p) = set books
            \<and> (\<forall>b \<in> set books. positions p b =
                  Some (sum_list (map signed_quantity (filter (\<lambda>t. book t = b) ts))))"
proof -
  let ?p0 = "Position_ctor product"
  have "\<forall>t \<in> set ts. book t \<in> dom (positions ?p0)"
    using assms by (simp add: dom_Position_ctor)
  from apply_trades_positions [OF this] obtain p where
    run: "apply_trades ?p0 ts = Inr p" and
    dom': "dom (positions p) = dom (positions ?p0)" and
    vals: "\<And>b v. positions ?p0 b = Some v \<Longrightarrow>
             positions p b = Some (v + sum_list (map signed_quantity (filter (\<lambda>t. book t = b) ts)))"
    by blast
  have each: "positions p b = Some (sum_list (map signed_quantity (filter (\<lambda>t. book t = b) ts)))"
    if "b \<in> set books" for b
  proof -
    from that have "positions ?p0 b = Some 0"
      by (auto simp add: Position_ctor_positions books_def)
    from vals [OF this] show ?thesis by simp
  qed
  have b1: "''TRSY1'' \<in> set books" and b2: "''TRSY2'' \<in> set books" and b3: "''TRSY3'' \<in> set books"
    by (simp_all add: books_def)
  have "GetAggregatePosition p = Inr (sum_list (map signed_quantity ts))"
    by (simp add: GetAggregatePosition_unfold each [OF b1] each [OF b2] each [OF b3]
        sum_by_book [OF assms])
  with run dom' each show ?thesis
    by (simp add: dom_Position_ctor)
qed


theorem position_invariant_witness:
  "book \<lparr>trade_product = hd GetProducts, tradeId = ''T1'', trade_price = 199 / 2,
          book = ''TRSY1'', trade_quantity = 5000000, trade_side = BUY\<rparr> \<in> set books
   \<and> book \<lparr>trade_product = hd GetProducts, tradeId = ''T2'', trade_price = 199 / 2,
          book = ''TRSY3'', trade_quantity = 2000000, trade_side = SELL\<rparr> \<in> set books
   \<and> (\<exists>p. apply_trades (Position_ctor (hd GetProducts))
          [\<lparr>trade_product = hd GetProducts, tradeId = ''T1'', trade_price = 199 / 2,
            book = ''TRSY1'', trade_quantity = 5000000, trade_side = BUY\<rparr>,
           \<lparr>trade_product = hd GetProducts, tradeId = ''T2'', trade_price = 199 / 2,
            book = ''TRSY3'', trade_quantity = 2000000, trade_side = SELL\<rparr>] = Inr p
        \<and> GetAggregatePosition p = Inr 3000000
        \<and> dom (positions p) = set books
        \<and> positions p ''TRSY1'' = Some 5000000
        \<and> positions p ''TRSY2'' = Some 0
        \<and> positions p ''TRSY3'' = Some (- 2000000))"
  using position_invariant [of
      "[\<lparr>trade_product = hd GetProducts, tradeId = ''T1'', trade_price = 199 / 2,
            book = ''TRSY1'', trade_quantity = 5000000, trade_side = BUY\<rparr>,
           \<lparr>trade_product = hd GetProducts, tradeId = ''T2'', trade_price = 199 / 2,
            book = ''TRSY3'', trade_quantity = 2000000, trade_side = SELL\<rparr>]"
      "hd GetProducts"]
  by (simp add: books_def signed_quantity_def)

text \<open>
  Every run, whatever its books: a run that contains a trade against a book that is not a
  key has no defined result, and a run that has a result leaves the set of book keys as it
  was.
\<close>

lemma apply_trades_unknown_book:
  assumes "\<exists>t \<in> set ts. book t \<notin> dom (positions p)"
  shows "apply_trades p ts = Inl DerefEnd"
  using assms
proof (induction ts arbitrary: p)
  case Nil
  then show ?case by simp
next
  case (Cons t ts)
  show ?case
  proof (cases "positions p (book t)")
    case None
    then show ?thesis
      by (simp add: UpdatePosition_unknown bind_err_def)
  next
    case (Some v)
    define p1 where
      "p1 = p\<lparr>positions := (positions p)(book t \<mapsto>
               (if trade_side t = BUY then v + trade_quantity t else v - trade_quantity t))\<rparr>"
    have step: "UpdatePosition p (book t) (trade_quantity t) (trade_side t) = Inr p1"
      unfolding p1_def by (rule UpdatePosition_known [OF Some])
    have dom1: "dom (positions p1) = dom (positions p)"
      using Some by (auto simp add: p1_def)
    from Cons.prems Some have "\<exists>t' \<in> set ts. book t' \<notin> dom (positions p1)"
      by (auto simp add: dom1)
    from Cons.IH [OF this] show ?thesis
      by (simp add: step bind_err_def)
  qed
qed

lemma apply_trades_keys:
  assumes "apply_trades p ts = Inr p'"
  shows "dom (positions p') = dom (positions p)"
proof (cases "\<forall>t \<in> set ts. book t \<in> dom (positions p)")
  case True
  from apply_trades_positions [OF True] assms show ?thesis
    by auto
next
  case False
  then have "apply_trades p ts = Inl DerefEnd"
    by (intro apply_trades_unknown_book) blast
  with assms show ?thesis by simp
qed

text \<open>
  C3 (position invariant). The claim asks, for every sequence of trades against one
  instrument, that the aggregate position is the sum of the signed quantities applied and
  that the book keys of the constructor remain. A trade against the book \<open>TRSY9\<close>
  reaches \<open>UpdatePosition\<close> like any other; \<open>positions.find(book)->second\<close> is then
  a dereference of \<open>end()\<close>, so the run of a purchase in \<open>TRSY1\<close> followed by a sale
  in \<open>TRSY9\<close> has no position and no aggregate at its end. This is the missing test
  of C4.
\<close>

theorem position_run_unknown_book:
  "UpdatePosition (Position_ctor (hd GetProducts)) ''TRSY9'' 2000000 SELL = Inl DerefEnd
   \<and> apply_trades (Position_ctor (hd GetProducts))
        [\<lparr>trade_product = hd GetProducts, tradeId = ''T1'', trade_price = 199 / 2,
          book = ''TRSY1'', trade_quantity = 5000000, trade_side = BUY\<rparr>,
         \<lparr>trade_product = hd GetProducts, tradeId = ''T2'', trade_price = 199 / 2,
          book = ''TRSY9'', trade_quantity = 2000000, trade_side = SELL\<rparr>]
      = Inl DerefEnd"
  by (simp add: UpdatePosition_def Position_ctor_positions bind_err_def)

lemma PositionService_ctor_value:
  "PositionService_ctor = Inr \<lparr>name_p =
     [''B02y'' \<mapsto> Position_ctor (GetProducts ! 0), ''B03y'' \<mapsto> Position_ctor (GetProducts ! 1),
      ''B05y'' \<mapsto> Position_ctor (GetProducts ! 2), ''B07y'' \<mapsto> Position_ctor (GetProducts ! 3),
      ''B10y'' \<mapsto> Position_ctor (GetProducts ! 4), ''B20y'' \<mapsto> Position_ctor (GetProducts ! 5),
      ''B30y'' \<mapsto> Position_ctor (GetProducts ! 6)]\<rparr>"
  by (simp add: PositionService_ctor_def GetProductMap_def GetProducts_def GetTickers_def
      map_insert_def bind_err_def)

lemma AddTrade_unknown_ticker:
  assumes "name_p svc (ticker (trade_product trade)) = None"
  shows "AddTrade svc trade = Inl DerefEnd"
  using assms by (simp add: AddTrade_def bind_err_def Let_def)

lemma AddTrade_unknown_book:
  assumes "name_p svc (ticker (trade_product trade)) = Some pos"
    and "positions pos (book trade) = None"
  shows "AddTrade svc trade = Inl DerefEnd"
  using assms by (simp add: AddTrade_def bind_err_def Let_def UpdatePosition_def)

lemma AddTrade_known:
  assumes "name_p svc (ticker (trade_product trade)) = Some pos"
    and "positions pos (book trade) = Some v"
  shows "AddTrade svc trade =
           Inr (svc\<lparr>name_p := (name_p svc)(ticker (trade_product trade) \<mapsto>
                      pos\<lparr>positions := (positions pos)(book trade \<mapsto>
                             (if trade_side trade = BUY then v + trade_quantity trade
                              else v - trade_quantity trade))\<rparr>)\<rparr>,
                [pos\<lparr>positions := (positions pos)(book trade \<mapsto>
                             (if trade_side trade = BUY then v + trade_quantity trade
                              else v - trade_quantity trade))\<rparr>])"
  using assms by (simp add: AddTrade_def bind_err_def Let_def UpdatePosition_def)

text \<open>
  C4 (unknown instrument, unknown book). The claim asks that a trade for an instrument
  outside the catalog, or for a book outside the three, is logged and dropped, and that
  listeners are notified only after a successful update. For the service that the
  constructor builds: with the ticker \<open>B99y\<close> the guarded branch prints its message,
  and the unguarded \<open>Notify(name_p.find(ticker)->second)\<close> then dereferences
  \<open>end()\<close>; with the book \<open>TRSY9\<close> on the first bond of the catalog
  \<open>UpdatePosition\<close> dereferences \<open>end()\<close>, having no test at all.
\<close>

theorem AddTrade_unknown_instrument_or_book:
  "\<exists>svc. PositionService_ctor = Inr svc
     \<and> AddTrade svc
          \<lparr>trade_product = \<lparr>productId = ''B99y'', ticker = ''B99y'', coupon = 0,
                             maturity = (2030, 1, 1)\<rparr>,
           tradeId = ''T1'', trade_price = 199 / 2, book = ''TRSY1'',
           trade_quantity = 1000000, trade_side = BUY\<rparr> = Inl DerefEnd
     \<and> AddTrade svc
          \<lparr>trade_product = hd GetProducts,
           tradeId = ''T2'', trade_price = 199 / 2, book = ''TRSY9'',
           trade_quantity = 1000000, trade_side = BUY\<rparr> = Inl DerefEnd"
  by (simp add: PositionService_ctor_value AddTrade_def bind_err_def Let_def UpdatePosition_def
      Position_ctor_positions GetProducts_def)

lemma PositionService_GetData_present:
  assumes "name_p svc key = Some p"
  shows "PositionService_GetData svc key = Inr p"
  using assms by (simp add: PositionService_GetData_def)

text \<open>
  C9 (lookup of an absent key). The claim asks that \<open>GetData\<close> fails with a NotFound
  condition on an absent key. \<open>PositionService::GetData\<close> on the ticker \<open>B99y\<close>
  dereferences \<open>end()\<close>; so does \<open>RiskService::GetData\<close> on every key, \<open>B02y\<close>
  here, since the map of the risk service is never written: \<open>AddPosition\<close> returns the
  service as it was.
\<close>

theorem GetData_absent_key:
  "(\<exists>svc. PositionService_ctor = Inr svc
      \<and> PositionService_GetData svc ''B99y'' = Inl DerefEnd)
   \<and> RiskService_GetData RiskService_ctor ''B02y'' = Inl DerefEnd
   \<and> (\<exists>pv. AddPosition RiskService_ctor (Position_ctor (hd GetProducts))
               = Inr (RiskService_ctor, [pv]))"
  by (simp add: PositionService_ctor_value PositionService_GetData_def RiskService_GetData_def
      RiskService_ctor_def AddPosition_def GetAggregatePosition_unfold Position_ctor_positions
      bind_err_def)

subsection \<open>Risk\<close>

text \<open>
  C6 (risk linearity). For every position that holds the three books, \<open>AddPosition\<close>
  leaves the service as it is and notifies one fresh \<open>PV01\<close> of the position's product,
  with sensitivity 0.02 and the aggregate position as quantity; the total risk that
  \<open>RiskConnector::Publish\<close> writes for it is 0.02 times the aggregate, read as a signed
  number, whatever its sign.
\<close>

theorem risk_linearity:
  assumes "set books \<subseteq> dom (positions position)"
  shows "\<exists>aggregate pv.
           GetAggregatePosition position = Inr aggregate
           \<and> AddPosition svc position = Inr (svc, [pv])
           \<and> pv_product pv = pos_product position
           \<and> pv01 pv = 2 / 100
           \<and> pv_quantity pv = aggregate
           \<and> totalRisk pv = (2 / 100) * of_int (sint aggregate)
           \<and> RiskConnector_Publish now_ms pv
               = (now_ms, ticker (pos_product position), (2 / 100) * of_int (sint aggregate))"
proof -
  from assms obtain v1 v2 v3 where
    "positions position ''TRSY1'' = Some v1"
    "positions position ''TRSY2'' = Some v2"
    "positions position ''TRSY3'' = Some v3"
    by (auto simp add: books_def)
  then show ?thesis
    by (simp add: GetAggregatePosition_unfold AddPosition_def bind_err_def totalRisk_def
        RiskConnector_Publish_def)
qed

theorem risk_linearity_witness:
  "set books \<subseteq> dom [''TRSY1'' \<mapsto> 3000000 :: 64 word, ''TRSY2'' \<mapsto> - 5000000, ''TRSY3'' \<mapsto> 0]
   \<and> (\<exists>pv. AddPosition RiskService_ctor
               \<lparr>pos_product = hd GetProducts,
                positions = [''TRSY1'' \<mapsto> 3000000, ''TRSY2'' \<mapsto> - 5000000, ''TRSY3'' \<mapsto> 0]\<rparr>
              = Inr (RiskService_ctor, [pv])
            \<and> pv_quantity pv = - 2000000
            \<and> totalRisk pv = - 40000)"
  using risk_linearity [of
      "\<lparr>pos_product = hd GetProducts,
        positions = [''TRSY1'' \<mapsto> 3000000, ''TRSY2'' \<mapsto> - 5000000, ''TRSY3'' \<mapsto> 0]\<rparr>"
      RiskService_ctor 0]
  by (simp add: books_def GetAggregatePosition_unfold) blast

subsection \<open>Execution\<close>

lemma cpp_rem_nonneg:
  assumes "0 \<le> a" and "0 < b"
  shows "cpp_rem a b = a mod b"
  using assms by (cases "a = 0") (simp_all add: cpp_rem_def)

lemma static_cast_int_nonneg:
  assumes "0 \<le> x"
  shows "static_cast_int x = \<lfloor>x\<rfloor>"
  using assms by (simp add: static_cast_int_def)

lemma AlgoExecution_ctor_value:
  assumes "bidStack d = b # bs" and "offerStack d = a # as" and "c \<noteq> 2147483647"
  shows "AlgoExecution_ctor cast c d =
           Inr (c + 1,
                \<lparr>order =
                   \<lparr>eo_product = ob_product d,
                    eo_side = cast (cpp_rem (c + 1) 2),
                    orderId = to_string (c + 1),
                    orderType = MARKET,
                    eo_price = (if cast (cpp_rem (c + 1) 2) = BID then order_price b
                                else order_price a),
                    visibleQuantity = (if cast (cpp_rem (c + 1) 2) = BID then order_quantity a
                                       else order_quantity b),
                    hiddenQuantity =
                      static_cast_int
                        (of_int (if cast (cpp_rem (c + 1) 2) = BID then order_quantity a
                                 else order_quantity b) * (9 / 10)),
                    parentOrderId = to_string (c + 1),
                    isChildOrder = False\<rparr>,
                 market = CME\<rparr>)"
  using assms by (simp add: AlgoExecution_ctor_def vector_at_def bind_err_def Let_def)

lemma Execute_qualifying:
  assumes "bidStack d = b # bs" and "offerStack d = a # as" and "c \<noteq> 2147483647"
    and "order_price a - order_price b \<le> 1 / 127"
  shows "\<exists>x. AlgoExecution_ctor cast c d = Inr (c + 1, x) \<and> Execute cast c d = Inr (c + 1, [x])"
  using assms
  by (simp add: Execute_def AlgoExecution_ctor_value [OF assms(1,2,3)] vector_at_def
      bind_err_def Let_def)

lemma Execute_not_qualifying:
  assumes "bidStack d = b # bs" and "offerStack d = a # as"
    and "\<not> order_price a - order_price b \<le> 1 / 127"
  shows "Execute cast c d = Inr (c, [])"
  using assms by (simp add: Execute_def vector_at_def bind_err_def Let_def)

lemma Execute_empty_stack:
  assumes "bidStack d = [] \<or> offerStack d = []"
  shows "Execute cast c d = Inl IndexPastEnd"
  using assms by (auto simp add: Execute_def vector_at_def bind_err_def)

text \<open>
  C2 (execution gating), as amended. For a book with a best bid and a best offer,
  \<open>Execute\<close> notifies exactly one execution when best offer minus best bid is at most
  1/127, and none otherwise. The execution is a market order whose hidden quantity is 0.9
  times its visible (matched) quantity truncated towards zero, which is the floor for a
  quantity that is not negative.
\<close>

theorem execution_gating:
  assumes "bidStack d = b # bs" and "offerStack d = a # as" and "c \<noteq> 2147483647"
  shows "(order_price a - order_price b \<le> 1 / 127 \<longrightarrow>
            (\<exists>x. Execute cast c d = Inr (c + 1, [x])
               \<and> orderType (order x) = MARKET
               \<and> hiddenQuantity (order x)
                   = static_cast_int (of_int (visibleQuantity (order x)) * (9 / 10))
               \<and> (0 \<le> visibleQuantity (order x) \<longrightarrow>
                    hiddenQuantity (order x) = \<lfloor>of_int (visibleQuantity (order x)) * (9 / 10 :: rat)\<rfloor>)))
       \<and> (\<not> order_price a - order_price b \<le> 1 / 127 \<longrightarrow> Execute cast c d = Inr (c, []))"
proof (intro conjI impI)
  assume q: "order_price a - order_price b \<le> 1 / 127"
  from Execute_qualifying [OF assms q] obtain x where
    x: "AlgoExecution_ctor cast c d = Inr (c + 1, x)" and e: "Execute cast c d = Inr (c + 1, [x])"
    by blast
  from x have h: "orderType (order x) = MARKET"
    "hiddenQuantity (order x) = static_cast_int (of_int (visibleQuantity (order x)) * (9 / 10))"
    by (auto simp add: AlgoExecution_ctor_value [OF assms])
  have "hiddenQuantity (order x) = \<lfloor>of_int (visibleQuantity (order x)) * (9 / 10 :: rat)\<rfloor>"
    if "0 \<le> visibleQuantity (order x)"
    using that h(2) by (simp add: static_cast_int_def)
  with e h show "\<exists>x. Execute cast c d = Inr (c + 1, [x])
               \<and> orderType (order x) = MARKET
               \<and> hiddenQuantity (order x)
                   = static_cast_int (of_int (visibleQuantity (order x)) * (9 / 10))
               \<and> (0 \<le> visibleQuantity (order x) \<longrightarrow>
                    hiddenQuantity (order x) = \<lfloor>of_int (visibleQuantity (order x)) * (9 / 10 :: rat)\<rfloor>)"
    by blast
next
  assume "\<not> order_price a - order_price b \<le> 1 / 127"
  then show "Execute cast c d = Inr (c, [])"
    by (rule Execute_not_qualifying [OF assms(1,2)])
qed

theorem execution_gating_witness:
  "(\<exists>x. Execute BID_first 0
           \<lparr>ob_product = ''B02y'',
            bidStack = [\<lparr>order_price = 99 + 16 / 32, order_quantity = 1000001, order_side = BID\<rparr>],
            offerStack = [\<lparr>order_price = 99 + 16 / 32 + 1 / 128, order_quantity = 2000000,
                           order_side = OFFER\<rparr>]\<rparr>
         = Inr (1, [x])
      \<and> visibleQuantity (order x) = 1000001
      \<and> hiddenQuantity (order x) = 900000)
   \<and> Execute BID_first 0
        \<lparr>ob_product = ''B02y'',
         bidStack = [\<lparr>order_price = 99 + 16 / 32, order_quantity = 1000000, order_side = BID\<rparr>],
         offerStack = [\<lparr>order_price = 99 + 17 / 32, order_quantity = 1000000,
                        order_side = OFFER\<rparr>]\<rparr>
      = Inr (0, [])"
proof -
  let ?b = "\<lparr>order_price = 99 + 16 / 32, order_quantity = 1000001, order_side = BID\<rparr>"
  let ?a = "\<lparr>order_price = 99 + 16 / 32 + 1 / 128, order_quantity = 2000000, order_side = OFFER\<rparr>"
  let ?d = "\<lparr>ob_product = ''B02y'', bidStack = [?b], offerStack = [?a]\<rparr>"
  let ?b2 = "\<lparr>order_price = 99 + 16 / 32, order_quantity = 1000000, order_side = BID\<rparr>"
  let ?a2 = "\<lparr>order_price = 99 + 17 / 32, order_quantity = 1000000, order_side = OFFER\<rparr>"
  let ?d2 = "\<lparr>ob_product = ''B02y'', bidStack = [?b2], offerStack = [?a2]\<rparr>"
  have one: "\<exists>x. Execute BID_first 0 ?d = Inr (1, [x])
               \<and> hiddenQuantity (order x) = static_cast_int (of_int (visibleQuantity (order x)) * (9 / 10))"
    using execution_gating [of ?d ?b "[]" ?a "[]" 0 BID_first] by auto
  then obtain x where x: "Execute BID_first 0 ?d = Inr (1, [x])"
    and h: "hiddenQuantity (order x) = static_cast_int (of_int (visibleQuantity (order x)) * (9 / 10))"
    by blast
  have v: "visibleQuantity (order x) = 1000001"
    using x
    by (auto simp add: Execute_def AlgoExecution_ctor_def vector_at_def bind_err_def Let_def
        cpp_rem_def BID_first_def)
  have "hiddenQuantity (order x) = 900000"
    using h v by (simp add: static_cast_int_def floor_eq_iff)
  with x v have first: "\<exists>x. Execute BID_first 0 ?d = Inr (1, [x])
      \<and> visibleQuantity (order x) = 1000001 \<and> hiddenQuantity (order x) = 900000"
    by blast
  have second: "Execute BID_first 0 ?d2 = Inr (0, [])"
    using execution_gating [of ?d2 ?b2 "[]" ?a2 "[]" 0 BID_first] by simp
  from first second show ?thesis by blast
qed

text \<open>
  C2, counterexample. The claim as stated fails at its own example. With best bid 99-16 and best offer 99-16+
  read as 99 + 16/32 and 99 + 16/32 + 1/64 the spread is 1/64, which is more than 1/127,
  and \<open>Execute\<close> notifies nothing. The same holds when the two texts go through
  \<open>ParsePriceFormat\<close>, as they do on the way from the market data file.
\<close>

theorem execution_gating_counterexample:
  "Execute BID_first 0
     \<lparr>ob_product = ''B02y'',
      bidStack = [\<lparr>order_price = 99 + 16 / 32, order_quantity = 1000000, order_side = BID\<rparr>],
      offerStack = [\<lparr>order_price = 99 + 16 / 32 + 1 / 64, order_quantity = 1000000,
                     order_side = OFFER\<rparr>]\<rparr>
   = Inr (0, [])
   \<and> ParsePriceFormat ''99-16'' = Inr (1589 / 16)
   \<and> ParsePriceFormat ''99-16+'' = Inr (25467 / 256)
   \<and> Execute BID_first 0
     \<lparr>ob_product = ''B02y'',
      bidStack = [\<lparr>order_price = 1589 / 16, order_quantity = 1000000, order_side = BID\<rparr>],
      offerStack = [\<lparr>order_price = 25467 / 256, order_quantity = 1000000,
                     order_side = OFFER\<rparr>]\<rparr>
   = Inr (0, [])"
proof -
  have a: "ParsePriceFormat ''99-16'' = Inr (1589 / 16)"
    by code_simp
  have b: "ParsePriceFormat ''99-16+'' = Inr (25467 / 256)"
    by code_simp
  show ?thesis
    by (simp add: a b Execute_def vector_at_def bind_err_def Let_def)
qed

lemma Execute_all_Cons_qualifying:
  assumes "Execute cast c d = Inr (c + 1, [x])" and "Execute_all cast (c + 1) ds = Inr (c', xs)"
  shows "Execute_all cast c (d # ds) = Inr (c', x # xs)"
  using assms by (simp add: bind_err_def)

lemma Execute_all_Cons_not_qualifying:
  assumes "Execute cast c d = Inr (c, [])" and "Execute_all cast c ds = Inr (c', xs)"
  shows "Execute_all cast c (d # ds) = Inr (c', xs)"
  using assms by (simp add: bind_err_def)

lemma Execute_all_run:
  assumes "\<forall>d \<in> set ds. bidStack d \<noteq> [] \<and> offerStack d \<noteq> []"
    and "0 \<le> c" and "c + int (length ds) \<le> 2147483647"
  shows "\<exists>xs. Execute_all cast c ds = Inr (c + int (length xs), xs)
           \<and> length xs = length (filter qualifies ds)
           \<and> (\<forall>i < length xs.
                 orderId (order (xs ! i)) = to_string (c + 1 + int i)
                 \<and> eo_side (order (xs ! i)) = cast ((c + 1 + int i) mod 2)
                 \<and> eo_product (order (xs ! i)) = ob_product (filter qualifies ds ! i)
                 \<and> eo_price (order (xs ! i)) =
                     (if eo_side (order (xs ! i)) = BID
                      then order_price (hd (bidStack (filter qualifies ds ! i)))
                      else order_price (hd (offerStack (filter qualifies ds ! i))))
                 \<and> visibleQuantity (order (xs ! i)) =
                     (if eo_side (order (xs ! i)) = BID
                      then order_quantity (hd (offerStack (filter qualifies ds ! i)))
                      else order_quantity (hd (bidStack (filter qualifies ds ! i)))))"
  using assms
proof (induction ds arbitrary: c)
  case Nil
  then show ?case by simp
next
  case (Cons d ds)
  from Cons.prems(1) obtain b bs a as where
    st: "bidStack d = b # bs" "offerStack d = a # as"
    by (cases "bidStack d"; cases "offerStack d") auto
  have nov: "c \<noteq> 2147483647"
    using Cons.prems(3) by simp
  show ?case
  proof (cases "qualifies d")
    case True
    then have q: "order_price a - order_price b \<le> 1 / 127"
      by (simp add: qualifies_def st)
    from Execute_qualifying [OF st nov q] obtain x where
      ctor: "AlgoExecution_ctor cast c d = Inr (c + 1, x)" and
      ex: "Execute cast c d = Inr (c + 1, [x])"
      by blast
    have rem: "cpp_rem (c + 1) 2 = (c + 1) mod 2"
      using Cons.prems(2) by (simp add: cpp_rem_nonneg)
    have x: "orderId (order x) = to_string (c + 1)"
      "eo_side (order x) = cast ((c + 1) mod 2)"
      "eo_product (order x) = ob_product d"
      "eo_price (order x) = (if eo_side (order x) = BID then order_price (hd (bidStack d))
                             else order_price (hd (offerStack d)))"
      "visibleQuantity (order x) = (if eo_side (order x) = BID then order_quantity (hd (offerStack d))
                                    else order_quantity (hd (bidStack d)))"
      using ctor by (auto simp add: AlgoExecution_ctor_value [OF st nov] rem st)
    have "\<forall>d \<in> set ds. bidStack d \<noteq> [] \<and> offerStack d \<noteq> []"
      "0 \<le> c + 1" "c + 1 + int (length ds) \<le> 2147483647"
      using Cons.prems by simp_all
    from Cons.IH [OF this] obtain xs where
      run: "Execute_all cast (c + 1) ds = Inr (c + 1 + int (length xs), xs)" and
      len: "length xs = length (filter qualifies ds)" and
      each: "\<And>i. i < length xs \<Longrightarrow>
                 orderId (order (xs ! i)) = to_string (c + 1 + 1 + int i)
                 \<and> eo_side (order (xs ! i)) = cast ((c + 1 + 1 + int i) mod 2)
                 \<and> eo_product (order (xs ! i)) = ob_product (filter qualifies ds ! i)
                 \<and> eo_price (order (xs ! i)) =
                     (if eo_side (order (xs ! i)) = BID
                      then order_price (hd (bidStack (filter qualifies ds ! i)))
                      else order_price (hd (offerStack (filter qualifies ds ! i))))
                 \<and> visibleQuantity (order (xs ! i)) =
                     (if eo_side (order (xs ! i)) = BID
                      then order_quantity (hd (offerStack (filter qualifies ds ! i)))
                      else order_quantity (hd (bidStack (filter qualifies ds ! i))))"
      by blast
    have all: "Execute_all cast c (d # ds) = Inr (c + int (length (x # xs)), x # xs)"
      using Execute_all_Cons_qualifying [OF ex run] by (simp add: add.assoc)
    have len': "length (x # xs) = length (filter qualifies (d # ds))"
      using True len by simp
    have "orderId (order ((x # xs) ! i)) = to_string (c + 1 + int i)
          \<and> eo_side (order ((x # xs) ! i)) = cast ((c + 1 + int i) mod 2)
          \<and> eo_product (order ((x # xs) ! i)) = ob_product (filter qualifies (d # ds) ! i)
          \<and> eo_price (order ((x # xs) ! i)) =
              (if eo_side (order ((x # xs) ! i)) = BID
               then order_price (hd (bidStack (filter qualifies (d # ds) ! i)))
               else order_price (hd (offerStack (filter qualifies (d # ds) ! i))))
          \<and> visibleQuantity (order ((x # xs) ! i)) =
              (if eo_side (order ((x # xs) ! i)) = BID
               then order_quantity (hd (offerStack (filter qualifies (d # ds) ! i)))
               else order_quantity (hd (bidStack (filter qualifies (d # ds) ! i))))"
      if i: "i < length (x # xs)" for i
    proof (cases i)
      case 0
      then show ?thesis using x True by simp
    next
      case (Suc j)
      then have j: "j < length xs" using i by simp
      have eq: "c + 1 + 1 + int j = c + 1 + int (Suc j)" by simp
      from each [OF j] show ?thesis
        unfolding Suc eq using True by simp
    qed
    with all len' show ?thesis by blast
  next
    case False
    then have q: "\<not> order_price a - order_price b \<le> 1 / 127"
      by (simp add: qualifies_def st)
    have ex: "Execute cast c d = Inr (c, [])"
      by (rule Execute_not_qualifying [OF st q])
    have "\<forall>d \<in> set ds. bidStack d \<noteq> [] \<and> offerStack d \<noteq> []"
      "0 \<le> c" "c + int (length ds) \<le> 2147483647"
      using Cons.prems by simp_all
    from Cons.IH [OF this] obtain xs where
      run: "Execute_all cast c ds = Inr (c + int (length xs), xs)" and
      rest: "length xs = length (filter qualifies ds)
           \<and> (\<forall>i < length xs.
                 orderId (order (xs ! i)) = to_string (c + 1 + int i)
                 \<and> eo_side (order (xs ! i)) = cast ((c + 1 + int i) mod 2)
                 \<and> eo_product (order (xs ! i)) = ob_product (filter qualifies ds ! i)
                 \<and> eo_price (order (xs ! i)) =
                     (if eo_side (order (xs ! i)) = BID
                      then order_price (hd (bidStack (filter qualifies ds ! i)))
                      else order_price (hd (offerStack (filter qualifies ds ! i))))
                 \<and> visibleQuantity (order (xs ! i)) =
                     (if eo_side (order (xs ! i)) = BID
                      then order_quantity (hd (offerStack (filter qualifies ds ! i)))
                      else order_quantity (hd (bidStack (filter qualifies ds ! i)))))"
      by blast
    have "Execute_all cast c (d # ds) = Inr (c + int (length xs), xs)"
      by (rule Execute_all_Cons_not_qualifying [OF ex run])
    with rest False show ?thesis by auto
  qed
qed


lemma consecutive_parities:
  fixes n :: int
  shows "(n mod 2 = 0 \<and> (n + 1) mod 2 = 1) \<or> (n mod 2 = 1 \<and> (n + 1) mod 2 = 0)"
  by presburger

text \<open>
  C5 (alternation of the aggressing side). A run of order books, of any products, through
  \<open>Execute\<close>, starting with the counter at \<open>c\<close>: every qualifying book, and only
  those, produces one execution and advances the counter by one. The \<open>i\<close>-th execution
  carries the counter value \<open>c + 1 + i\<close> as its identifier, has the side that the
  parity of that value selects, takes the best bid price with the best offer quantity when
  the side is \<open>BID\<close>, and the best offer price with the best bid quantity otherwise.
  Where the enumeration maps 0 and 1 to different sides, consecutive executions have
  different sides.
\<close>

theorem execution_side_alternation:
  assumes "\<forall>d \<in> set ds. bidStack d \<noteq> [] \<and> offerStack d \<noteq> []"
    and "0 \<le> c" and "c + int (length ds) \<le> 2147483647"
  shows "\<exists>xs. Execute_all cast c ds = Inr (c + int (length xs), xs)
           \<and> length xs = length (filter qualifies ds)
           \<and> (\<forall>i < length xs.
                 orderId (order (xs ! i)) = to_string (c + 1 + int i)
                 \<and> eo_side (order (xs ! i)) = cast ((c + 1 + int i) mod 2)
                 \<and> eo_product (order (xs ! i)) = ob_product (filter qualifies ds ! i)
                 \<and> eo_price (order (xs ! i)) =
                     (if eo_side (order (xs ! i)) = BID
                      then order_price (hd (bidStack (filter qualifies ds ! i)))
                      else order_price (hd (offerStack (filter qualifies ds ! i))))
                 \<and> visibleQuantity (order (xs ! i)) =
                     (if eo_side (order (xs ! i)) = BID
                      then order_quantity (hd (offerStack (filter qualifies ds ! i)))
                      else order_quantity (hd (bidStack (filter qualifies ds ! i)))))
           \<and> (cast 0 \<noteq> cast 1 \<longrightarrow>
                (\<forall>i. Suc i < length xs \<longrightarrow>
                   eo_side (order (xs ! i)) \<noteq> eo_side (order (xs ! Suc i))))"
proof -
  from Execute_all_run [OF assms, of cast] obtain xs where
    run: "Execute_all cast c ds = Inr (c + int (length xs), xs)" and
    len: "length xs = length (filter qualifies ds)" and
    each: "\<forall>i < length xs.
                 orderId (order (xs ! i)) = to_string (c + 1 + int i)
                 \<and> eo_side (order (xs ! i)) = cast ((c + 1 + int i) mod 2)
                 \<and> eo_product (order (xs ! i)) = ob_product (filter qualifies ds ! i)
                 \<and> eo_price (order (xs ! i)) =
                     (if eo_side (order (xs ! i)) = BID
                      then order_price (hd (bidStack (filter qualifies ds ! i)))
                      else order_price (hd (offerStack (filter qualifies ds ! i))))
                 \<and> visibleQuantity (order (xs ! i)) =
                     (if eo_side (order (xs ! i)) = BID
                      then order_quantity (hd (offerStack (filter qualifies ds ! i)))
                      else order_quantity (hd (bidStack (filter qualifies ds ! i))))"
    by blast
  have alt: "eo_side (order (xs ! i)) \<noteq> eo_side (order (xs ! Suc i))"
    if d: "cast 0 \<noteq> cast 1" and i: "Suc i < length xs" for i
  proof -
    from i have i': "i < length xs" by simp
    have s0: "eo_side (order (xs ! i)) = cast ((c + 1 + int i) mod 2)"
      using each i' by blast
    have "eo_side (order (xs ! Suc i)) = cast ((c + 1 + int (Suc i)) mod 2)"
      using each i by blast
    then have s1: "eo_side (order (xs ! Suc i)) = cast ((c + 1 + int i + 1) mod 2)"
      by (simp add: add.commute add.left_commute)
    from consecutive_parities [of "c + 1 + int i"] show ?thesis
      using s0 s1 d by auto
  qed
  from run len each alt show ?thesis by blast
qed

lemma to_string_1: "to_string 1 = ''1''"
  by code_simp

lemma to_string_2: "to_string 2 = ''2''"
  by code_simp

theorem execution_side_alternation_witness:
  "\<exists>x1 x2.
     Execute_all BID_first 0
       [\<lparr>ob_product = ''B02y'',
         bidStack = [\<lparr>order_price = 99, order_quantity = 1000000, order_side = BID\<rparr>],
         offerStack = [\<lparr>order_price = 99 + 1 / 128, order_quantity = 2000000, order_side = OFFER\<rparr>]\<rparr>,
        \<lparr>ob_product = ''B05y'',
         bidStack = [\<lparr>order_price = 99, order_quantity = 3000000, order_side = BID\<rparr>],
         offerStack = [\<lparr>order_price = 100, order_quantity = 4000000, order_side = OFFER\<rparr>]\<rparr>,
        \<lparr>ob_product = ''B10y'',
         bidStack = [\<lparr>order_price = 100, order_quantity = 5000000, order_side = BID\<rparr>],
         offerStack = [\<lparr>order_price = 100 + 1 / 256, order_quantity = 6000000, order_side = OFFER\<rparr>]\<rparr>]
     = Inr (2, [x1, x2])
     \<and> orderId (order x1) = ''1'' \<and> eo_side (order x1) = OFFER
     \<and> eo_product (order x1) = ''B02y''
     \<and> eo_price (order x1) = 99 + 1 / 128 \<and> visibleQuantity (order x1) = 1000000
     \<and> orderId (order x2) = ''2'' \<and> eo_side (order x2) = BID
     \<and> eo_product (order x2) = ''B10y''
     \<and> eo_price (order x2) = 100 \<and> visibleQuantity (order x2) = 6000000"
proof -
  let ?d1 = "\<lparr>ob_product = ''B02y'',
         bidStack = [\<lparr>order_price = 99, order_quantity = 1000000, order_side = BID\<rparr>],
         offerStack = [\<lparr>order_price = 99 + 1 / 128, order_quantity = 2000000, order_side = OFFER\<rparr>]\<rparr>"
  let ?d2 = "\<lparr>ob_product = ''B05y'',
         bidStack = [\<lparr>order_price = 99, order_quantity = 3000000, order_side = BID\<rparr>],
         offerStack = [\<lparr>order_price = 100, order_quantity = 4000000, order_side = OFFER\<rparr>]\<rparr>"
  let ?d3 = "\<lparr>ob_product = ''B10y'',
         bidStack = [\<lparr>order_price = 100, order_quantity = 5000000, order_side = BID\<rparr>],
         offerStack = [\<lparr>order_price = 100 + 1 / 256, order_quantity = 6000000, order_side = OFFER\<rparr>]\<rparr>"
  have f: "filter qualifies [?d1, ?d2, ?d3] = [?d1, ?d3]"
    by (simp add: qualifies_def)
  from execution_side_alternation [of "[?d1, ?d2, ?d3]" 0 BID_first] obtain xs where
    run: "Execute_all BID_first 0 [?d1, ?d2, ?d3] = Inr (int (length xs), xs)" and
    len: "length xs = 2" and
    each: "\<forall>i < length xs.
             orderId (order (xs ! i)) = to_string (1 + int i)
             \<and> eo_side (order (xs ! i)) = BID_first ((1 + int i) mod 2)
             \<and> eo_product (order (xs ! i)) = ob_product ([?d1, ?d3] ! i)
             \<and> eo_price (order (xs ! i)) =
                 (if eo_side (order (xs ! i)) = BID
                  then order_price (hd (bidStack ([?d1, ?d3] ! i)))
                  else order_price (hd (offerStack ([?d1, ?d3] ! i))))
             \<and> visibleQuantity (order (xs ! i)) =
                 (if eo_side (order (xs ! i)) = BID
                  then order_quantity (hd (offerStack ([?d1, ?d3] ! i)))
                  else order_quantity (hd (bidStack ([?d1, ?d3] ! i))))"
    unfolding f by auto
  from len obtain x1 x2 where xs: "xs = [x1, x2]"
    by (cases xs; cases "tl xs") auto
  from each have e0: "orderId (order x1) = ''1'' \<and> eo_side (order x1) = OFFER
     \<and> eo_product (order x1) = ''B02y''
     \<and> eo_price (order x1) = 99 + 1 / 128 \<and> visibleQuantity (order x1) = 1000000"
    unfolding xs by (auto simp add: BID_first_def to_string_1 dest: spec [of _ 0])
  from each have e1: "orderId (order x2) = ''2'' \<and> eo_side (order x2) = BID
     \<and> eo_product (order x2) = ''B10y''
     \<and> eo_price (order x2) = 100 \<and> visibleQuantity (order x2) = 6000000"
    unfolding xs by (auto simp add: BID_first_def to_string_2 dest: spec [of _ 1])
  from run e0 e1 show ?thesis
    unfolding xs by auto
qed

subsection \<open>Rate-limited delivery\<close>

text \<open>
  C7 (rate-limited delivery), as amended. The stage keeps one time stamp, set by the
  constructor and reset at each delivery. When a quote arrives more than 300 ms after the
  time stamp it is forwarded and the time stamp becomes its arrival time; a quote that
  follows it by 100 ms is dropped, one that follows it by 400 ms is forwarded. In general a
  quote is forwarded exactly when it arrives more than 300 ms after the time stamp, whatever
  its instrument.
\<close>

theorem rate_limited_delivery:
  assumes "t1 - last_quote_time svc > 300"
  shows "snd (ProvideData_all svc [(t1, q1), (t1 + 100, q2)]) = [q1]
       \<and> snd (ProvideData_all svc [(t1, q1), (t1 + 400, q2)]) = [q1, q2]
       \<and> last_quote_time (fst (ProvideData svc t1 q1)) = t1
       \<and> snd (ProvideData s t q) = (if t - last_quote_time s > 300 then [q] else [])
       \<and> last_quote_time (fst (ProvideData s t q))
           = (if t - last_quote_time s > 300 then t else last_quote_time s)"
  using assms by (simp add: ProvideData_def)

theorem rate_limited_delivery_witness:
  "500 - last_quote_time (GUIService_ctor 0) > 300
   \<and> snd (ProvideData_all (GUIService_ctor 0) [(500, ''q1''), (600, ''q2'')]) = [''q1'']
   \<and> snd (ProvideData_all (GUIService_ctor 0) [(500, ''q1''), (900, ''q2'')]) = [''q1'', ''q2'']"
  using rate_limited_delivery [of 500 "GUIService_ctor 0" "''q1''" "''q2''" "GUIService_ctor 0" 0 "''q1''"]
  by (simp add: GUIService_ctor_def)

text \<open>
  C7, counterexample. The claim as stated fails for quotes that arrive soon after the construction of the
  stage, whose clock reading is the first time stamp: of two quotes 100 ms apart, arriving
  100 ms and 200 ms after the construction, none is forwarded; of two quotes 400 ms apart,
  arriving after 100 ms and 500 ms, only the second is.
\<close>

theorem rate_limited_delivery_counterexample:
  "ProvideData_all (GUIService_ctor 0) [(100, ''q1''), (200, ''q2'')] = (GUIService_ctor 0, [])
   \<and> snd (ProvideData_all (GUIService_ctor 0) [(100, ''q1''), (500, ''q2'')]) = [''q2'']"
  by (simp add: GUIService_ctor_def ProvideData_def)

subsection \<open>Inquiries\<close>

lemma InquiryConnector_Publish_received:
  assumes "state d = RECEIVED"
  shows "InquiryConnector_Publish f svc d =
           (let (svc1, out1) = f svc (d\<lparr>state := QUOTED\<rparr>);
                (svc2, out2) = f svc1 (d\<lparr>state := DONE\<rparr>)
            in (svc2, out1 @ out2))"
  using assms by (simp add: InquiryConnector_Publish_def Let_def)

lemma InquiryConnector_Publish_other:
  assumes "state d \<noteq> RECEIVED"
  shows "InquiryConnector_Publish f svc d = (svc, [])"
  using assms by (simp add: InquiryConnector_Publish_def)

text \<open>
  C8 (inquiry cascade). \<open>Publish\<close> of the inquiry connector, given an inquiry in state
  \<open>RECEIVED\<close>, enters the inquiry service twice: with the inquiry in state
  \<open>QUOTED\<close>, then with it in state \<open>DONE\<close>. With the service recording and
  notifying what it receives, exactly these two states are recorded for the identifier of
  the inquiry, in this order, the latest being \<open>DONE\<close>; \<open>REJECTED\<close> is not among
  them.
\<close>

theorem inquiry_cascade:
  assumes "state d = RECEIVED"
  shows "InquiryConnector_Publish InquiryService_OnMessage svc d
           = (svc\<lparr>inquiries := (inquiries svc)(inquiryId d \<mapsto> d\<lparr>state := DONE\<rparr>)\<rparr>,
              [d\<lparr>state := QUOTED\<rparr>, d\<lparr>state := DONE\<rparr>])
       \<and> map inquiryId (snd (InquiryConnector_Publish InquiryService_OnMessage svc d))
           = [inquiryId d, inquiryId d]
       \<and> map state (snd (InquiryConnector_Publish InquiryService_OnMessage svc d))
           = [QUOTED, DONE]
       \<and> REJECTED \<notin> set (map state (snd (InquiryConnector_Publish InquiryService_OnMessage svc d)))"
  using assms by (simp add: InquiryConnector_Publish_def InquiryService_OnMessage_def Let_def)

theorem inquiry_cascade_witness:
  "state \<lparr>inquiryId = ''7'', inq_product = ''B05y'', inq_side = BUY,
          inq_quantity = 1000000, inq_price = - 1, state = RECEIVED\<rparr> = RECEIVED
   \<and> InquiryConnector_Publish InquiryService_OnMessage \<lparr>inquiries = Map.empty\<rparr>
        \<lparr>inquiryId = ''7'', inq_product = ''B05y'', inq_side = BUY,
         inq_quantity = 1000000, inq_price = - 1, state = RECEIVED\<rparr>
      = (\<lparr>inquiries = [''7'' \<mapsto> \<lparr>inquiryId = ''7'', inq_product = ''B05y'', inq_side = BUY,
                                  inq_quantity = 1000000, inq_price = - 1, state = DONE\<rparr>]\<rparr>,
         [\<lparr>inquiryId = ''7'', inq_product = ''B05y'', inq_side = BUY,
           inq_quantity = 1000000, inq_price = - 1, state = QUOTED\<rparr>,
          \<lparr>inquiryId = ''7'', inq_product = ''B05y'', inq_side = BUY,
           inq_quantity = 1000000, inq_price = - 1, state = DONE\<rparr>])"
  using inquiry_cascade [of
      "\<lparr>inquiryId = ''7'', inq_product = ''B05y'', inq_side = BUY,
        inq_quantity = 1000000, inq_price = - 1, state = RECEIVED\<rparr>"
      "\<lparr>inquiries = Map.empty\<rparr>"]
  by simp

end
